theory Spec2Isabelle
  imports Main "HOL-Library.Word"
begin

section \<open>JavaScript strings\<close>

text \<open>
  A JavaScript string is a sequence of UTF-16 code units, and \<open>s.length\<close> counts code
  units. \<open>String.prototype.trim\<close> removes the ECMAScript WhiteSpace and LineTerminator
  code points from both ends.
\<close>

type_synonym jsstring = "16 word list"

definition is_white_space :: "16 word \<Rightarrow> bool" where
  "is_white_space c =
     (c = 0x0009 \<or> c = 0x000A \<or> c = 0x000B \<or> c = 0x000C \<or> c = 0x000D \<or> c = 0x0020 \<or>
      c = 0x00A0 \<or> c = 0x1680 \<or> (0x2000 \<le> c \<and> c \<le> 0x200A) \<or> c = 0x2028 \<or>
      c = 0x2029 \<or> c = 0x202F \<or> c = 0x205F \<or> c = 0x3000 \<or> c = 0xFEFF)"

definition trim :: "jsstring \<Rightarrow> jsstring" where
  "trim s = rev (dropWhile is_white_space (rev (dropWhile is_white_space s)))"

section \<open>The backend client\<close>

text \<open>
  The Supabase client is an external library. Each awaited call resolves to an object
  \<open>{ data, error }\<close> in which exactly one of the two is non-null; \<open>Success\<close> carries the
  data and \<open>Failure\<close> the error. The calls the handlers below make are the fields of
  \<open>backend\<close>: what the service answers to each request.
\<close>

datatype 'a response = Success 'a | Failure string

fun data_of :: "'a response \<Rightarrow> 'a option" where
  "data_of (Success d) = Some d"
| "data_of (Failure e) = None"

fun error_of :: "'a response \<Rightarrow> string option" where
  "error_of (Success d) = None"
| "error_of (Failure e) = Some e"

record profile_row =
  p_user_id :: jsstring
  p_display_name :: "jsstring option"
  p_avatar_url :: "jsstring option"

record tweet_row =
  r_id :: jsstring
  r_user_id :: jsstring
  r_content :: jsstring
  r_likes_count :: int
  r_comments_count :: int
  r_created_at :: jsstring

record comment_row =
  cr_id :: jsstring
  cr_user_id :: jsstring
  cr_content :: jsstring
  cr_created_at :: jsstring

record backend =
  profiles_select_single :: "jsstring \<Rightarrow> profile_row response"
  comments_select_single :: "jsstring \<Rightarrow> comment_row response"
  likes_insert :: "jsstring \<Rightarrow> jsstring \<Rightarrow> unit response"
  likes_delete :: "jsstring \<Rightarrow> jsstring \<Rightarrow> unit response"
  tweets_insert :: "jsstring \<Rightarrow> jsstring \<Rightarrow> unit response"
  rpc_is_email_allowed :: "jsstring \<Rightarrow> bool response"
  auth_signUp :: "jsstring \<Rightarrow> jsstring \<Rightarrow> jsstring \<Rightarrow> unit response"
  auth_updateUser :: "jsstring \<Rightarrow> unit response"

text \<open>
  What a handler does besides changing its component's state is recorded, in order, as a
  list of effects: the remote requests it issues, the toasts it shows (title,
  description, and whether the variant is "destructive"), console output, timers,
  events and navigation.
\<close>

datatype request =
    ProfilesSelect jsstring
  | CommentsSelect jsstring
  | LikesInsert jsstring jsstring
  | LikesDelete jsstring jsstring
  | TweetsInsert jsstring jsstring
  | RpcIsEmailAllowed jsstring
  | AuthSignUp jsstring jsstring jsstring
  | AuthUpdateUser jsstring

datatype effect =
    Remote request
  | Toast string string bool
  | ConsoleLog string
  | ConsoleError string
  | RefreshLater
  | ScrollLater
  | DispatchEvent string
  | Navigate string

fun is_remote :: "effect \<Rightarrow> bool" where
  "is_remote (Remote r) = True"
| "is_remote _ = False"

section \<open>View state\<close>

text \<open>
  The \<open>Tweet\<close> interface of Dashboard.tsx and CommentsPage.tsx. The fields \<open>id\<close>,
  \<open>user_id\<close>, \<open>content\<close>, \<open>created_at\<close> and \<open>profiles\<close> carry the prefix \<open>t_\<close>.
  The counters are database INTEGER columns, so they are integers here. \<open>user_liked\<close>
  is an optional field: \<open>None\<close> is a tweet object without it.
\<close>

record profile_info =
  display_name :: "jsstring option"
  avatar_url :: "jsstring option"

record tweet =
  t_id :: jsstring
  t_user_id :: jsstring
  t_content :: jsstring
  likes_count :: int
  comments_count :: int
  t_created_at :: jsstring
  t_profiles :: "profile_info option"
  user_liked :: "bool option"

text \<open>The \<open>Comment\<close> interface of CommentsPage.tsx, fields prefixed \<open>c_\<close>.\<close>

record comment =
  c_id :: jsstring
  c_user_id :: jsstring
  c_content :: jsstring
  c_created_at :: jsstring
  c_profiles :: "profile_row option"

section \<open>Dashboard: the realtime handlers of the channel tweets-changes\<close>

text \<open>
  The INSERT handler fetches the author's profile, builds the object
  \<open>newTweetWithProfile\<close> from the payload row and the fetched profile, and prepends it:
  \<open>setTweets(prev => [newTweetWithProfile, ...prev])\<close>.
\<close>

definition newTweetWithProfile :: "tweet_row \<Rightarrow> profile_row option \<Rightarrow> tweet" where
  "newTweetWithProfile new profileData =
     \<lparr> t_id = r_id new,
       t_user_id = r_user_id new,
       t_content = r_content new,
       likes_count = r_likes_count new,
       comments_count = r_comments_count new,
       t_created_at = r_created_at new,
       t_profiles = (case profileData of
                       Some p \<Rightarrow> Some \<lparr> display_name = p_display_name p,
                                        avatar_url = p_avatar_url p \<rparr>
                     | None \<Rightarrow> None),
       user_liked = Some False \<rparr>"

definition tweets_changes_INSERT ::
  "backend \<Rightarrow> tweet_row \<Rightarrow> tweet list \<Rightarrow> tweet list \<times> effect list" where
  "tweets_changes_INSERT be new prev =
     (let resp = profiles_select_single be (r_user_id new);
          profileData = data_of resp;
          profileError = error_of resp
      in (newTweetWithProfile new profileData # prev,
          [ConsoleLog ''New tweet received:'', Remote (ProfilesSelect (r_user_id new))] @
          (case profileError of
             Some e \<Rightarrow> [ConsoleError ''Error fetching profile for new tweet:'']
           | None \<Rightarrow> [])))"

text \<open>A run of INSERT notifications, each handled to completion in arrival order.\<close>

fun tweets_changes_INSERTs :: "backend \<Rightarrow> tweet_row list \<Rightarrow> tweet list \<Rightarrow> tweet list" where
  "tweets_changes_INSERTs be [] prev = prev"
| "tweets_changes_INSERTs be (new # news) prev =
     tweets_changes_INSERTs be news (fst (tweets_changes_INSERT be new prev))"

text \<open>
  The UPDATE handler:
  \<open>prev.map(tweet => tweet.id === payload.new.id ? { ...tweet, likes_count: ...,
  comments_count: ... } : tweet)\<close>.
\<close>

definition tweets_changes_UPDATE :: "tweet_row \<Rightarrow> tweet list \<Rightarrow> tweet list \<times> effect list" where
  "tweets_changes_UPDATE new prev =
     (map (\<lambda>tweet. if t_id tweet = r_id new
                    then tweet\<lparr> likes_count := r_likes_count new,
                                comments_count := r_comments_count new \<rparr>
                    else tweet) prev,
      [ConsoleLog ''Tweet updated:''])"

text \<open>
  The inline composer. \<open>handleSendTweet\<close> returns at once when
  \<open>!newTweet.trim() || !user || newTweet.length > 280\<close>; otherwise it inserts the
  trimmed text and, on success, clears the field and schedules a refresh. The component
  state it touches is the text \<open>newTweet\<close>; \<open>user\<close> is the signed-in user's id.
\<close>

definition handleSendTweet ::
  "backend \<Rightarrow> jsstring option \<Rightarrow> jsstring \<Rightarrow> jsstring \<times> effect list" where
  "handleSendTweet be user newTweet =
     (if trim newTweet = [] \<or> user = None \<or> 280 < length newTweet then (newTweet, [])
      else case user of
        None \<Rightarrow> (newTweet, [])
      | Some uid \<Rightarrow>
          (case error_of (tweets_insert be uid (trim newTweet)) of
             Some e \<Rightarrow>
               (newTweet,
                [Remote (TweetsInsert uid (trim newTweet)),
                 Toast ''Error'' ''Failed to send tweet'' True])
           | None \<Rightarrow>
               ([],
                [Remote (TweetsInsert uid (trim newTweet)),
                 Toast ''Success'' ''Tweet posted successfully!'' False,
                 RefreshLater])))"

text \<open>
  \<open>handleLike(tweetId, isLiked)\<close>: without a user, or when \<open>tweets.find\<close> finds no
  tweet with that id, it returns. Otherwise the optimistic update maps over the list,
  one remote write is awaited (a delete when \<open>isLiked\<close>, an insert otherwise), and on
  an error the revert maps over the list again, writing back the count of
  \<open>currentTweet\<close> and the literal flag of the branch. The updates are functional
  (\<open>setTweets(prev => ...)\<close>); here nothing else touches the list in between.
\<close>

definition handleLike ::
  "backend \<Rightarrow> jsstring option \<Rightarrow> jsstring \<Rightarrow> bool \<Rightarrow> tweet list \<Rightarrow> tweet list \<times> effect list" where
  "handleLike be user tweetId isLiked tweets =
     (case user of
        None \<Rightarrow> (tweets, [])
      | Some uid \<Rightarrow>
          (case find (\<lambda>t. t_id t = tweetId) tweets of
             None \<Rightarrow> (tweets, [])
           | Some currentTweet \<Rightarrow>
               (let newLikesCount = (if isLiked then likes_count currentTweet - 1
                                     else likes_count currentTweet + 1);
                    optimistic = map (\<lambda>tweet. if t_id tweet = tweetId
                                       then tweet\<lparr> likes_count := newLikesCount,
                                                   user_liked := Some (\<not> isLiked) \<rparr>
                                       else tweet) tweets
                in if isLiked then
                     (case error_of (likes_delete be tweetId uid) of
                        None \<Rightarrow> (optimistic, [Remote (LikesDelete tweetId uid)])
                      | Some e \<Rightarrow>
                          (map (\<lambda>tweet. if t_id tweet = tweetId
                                  then tweet\<lparr> likes_count := likes_count currentTweet,
                                              user_liked := Some True \<rparr>
                                  else tweet) optimistic,
                           [Remote (LikesDelete tweetId uid),
                            ConsoleError ''Error unliking tweet:'',
                            Toast ''Error'' ''Failed to unlike tweet'' True]))
                   else
                     (case error_of (likes_insert be tweetId uid) of
                        None \<Rightarrow> (optimistic, [Remote (LikesInsert tweetId uid)])
                      | Some e \<Rightarrow>
                          (map (\<lambda>tweet. if t_id tweet = tweetId
                                  then tweet\<lparr> likes_count := likes_count currentTweet,
                                              user_liked := Some False \<rparr>
                                  else tweet) optimistic,
                           [Remote (LikesInsert tweetId uid),
                            ConsoleError ''Error liking tweet:'',
                            Toast ''Error'' ''Failed to like tweet'' True])))))"

section \<open>CommentsPage\<close>

text \<open>
  The page holds one tweet (\<open>tweet\<close>, possibly null) and the list \<open>comments\<close>; the
  fields are \<open>cp_tweet\<close> and \<open>cp_comments\<close>.
\<close>

record comments_page =
  cp_tweet :: "tweet option"
  cp_comments :: "comment list"

text \<open>
  The comments INSERT handler re-fetches the comment row by \<open>payload.new.id\<close>. Only when
  that yields data does it fetch the author's profile, append the comment and add one to
  the tweet's \<open>comments_count\<close>.
\<close>

definition commentWithProfile :: "comment_row \<Rightarrow> profile_row option \<Rightarrow> comment" where
  "commentWithProfile newCommentData profile =
     \<lparr> c_id = cr_id newCommentData,
       c_user_id = cr_user_id newCommentData,
       c_content = cr_content newCommentData,
       c_created_at = cr_created_at newCommentData,
       c_profiles = profile \<rparr>"

definition comments_INSERT ::
  "backend \<Rightarrow> jsstring \<Rightarrow> comments_page \<Rightarrow> comments_page \<times> effect list" where
  "comments_INSERT be new_id st =
     (case data_of (comments_select_single be new_id) of
        None \<Rightarrow> (st, [ConsoleLog ''New comment received:'', Remote (CommentsSelect new_id)])
      | Some newCommentData \<Rightarrow>
          (let profile = data_of (profiles_select_single be (cr_user_id newCommentData))
           in (st\<lparr> cp_comments := cp_comments st @ [commentWithProfile newCommentData profile],
                   cp_tweet := (case cp_tweet st of
                                  Some prev \<Rightarrow> Some (prev\<lparr> comments_count := comments_count prev + 1 \<rparr>)
                                | None \<Rightarrow> None) \<rparr>,
               [ConsoleLog ''New comment received:'',
                Remote (CommentsSelect new_id),
                Remote (ProfilesSelect (cr_user_id newCommentData)),
                ScrollLater])))"

text \<open>
  The tweets UPDATE handler of the page. The subscription is filtered by
  \<open>id=eq.${tweetId}\<close>; the handler itself patches whatever tweet is held.
\<close>

definition tweets_UPDATE :: "tweet_row \<Rightarrow> comments_page \<Rightarrow> comments_page \<times> effect list" where
  "tweets_UPDATE new st =
     (st\<lparr> cp_tweet := (case cp_tweet st of
                          Some prev \<Rightarrow> Some (prev\<lparr> likes_count := r_likes_count new,
                                                    comments_count := r_comments_count new \<rparr>)
                        | None \<Rightarrow> None) \<rparr>,
      [ConsoleLog ''Tweet updated:''])"

text \<open>\<open>handleLike(isLiked)\<close> of the page, on the single tweet it holds.\<close>

definition handleLike_CommentsPage ::
  "backend \<Rightarrow> jsstring option \<Rightarrow> bool \<Rightarrow> comments_page \<Rightarrow> comments_page \<times> effect list" where
  "handleLike_CommentsPage be user isLiked st =
     (case user of
        None \<Rightarrow> (st, [])
      | Some uid \<Rightarrow>
          (case cp_tweet st of
             None \<Rightarrow> (st, [])
           | Some tweet \<Rightarrow>
               (let newLikesCount = (if isLiked then likes_count tweet - 1
                                     else likes_count tweet + 1);
                    optimistic = Some (tweet\<lparr> likes_count := newLikesCount,
                                              user_liked := Some (\<not> isLiked) \<rparr>)
                in if isLiked then
                     (case error_of (likes_delete be (t_id tweet) uid) of
                        None \<Rightarrow> (st\<lparr> cp_tweet := optimistic \<rparr>,
                                 [Remote (LikesDelete (t_id tweet) uid)])
                      | Some e \<Rightarrow>
                          (st\<lparr> cp_tweet := (case optimistic of
                                               Some prev \<Rightarrow> Some (prev\<lparr> likes_count := likes_count tweet,
                                                                         user_liked := Some True \<rparr>)
                                             | None \<Rightarrow> None) \<rparr>,
                           [Remote (LikesDelete (t_id tweet) uid),
                            ConsoleError ''Error unliking tweet:'',
                            Toast ''Error'' ''Failed to unlike tweet'' True]))
                   else
                     (case error_of (likes_insert be (t_id tweet) uid) of
                        None \<Rightarrow> (st\<lparr> cp_tweet := optimistic \<rparr>,
                                 [Remote (LikesInsert (t_id tweet) uid)])
                      | Some e \<Rightarrow>
                          (st\<lparr> cp_tweet := (case optimistic of
                                               Some prev \<Rightarrow> Some (prev\<lparr> likes_count := likes_count tweet,
                                                                         user_liked := Some False \<rparr>)
                                             | None \<Rightarrow> None) \<rparr>,
                           [Remote (LikesInsert (t_id tweet) uid),
                            ConsoleError ''Error liking tweet:'',
                            Toast ''Error'' ''Failed to like tweet'' True])))))"

text \<open>
  The comments INSERT handler is asynchronous: between the arrival of a notification and
  its state updates lie the awaited fetches, and meanwhile further notifications may
  arrive and other handlers may finish. Its updates are functional
  (\<open>setComments(prev => [...prev, commentWithProfile])\<close>,
  \<open>setTweet(prev => ...)\<close>), so they act on the page as it is at the moment the
  handler finishes; \<open>comments_INSERT\<close> applied to that page gives the page after.
  A history of the channel is a list of events: \<open>Arrive i\<close> starts a handler for the
  notification of row \<open>i\<close>, \<open>Complete i\<close> is the moment the fetches of a handler in
  flight have resolved and it updates the page. \<open>comments_channel\<close> runs a history,
  keeping the handlers in flight; \<open>arrivals\<close> and \<open>completions\<close> read off the two
  orders, and \<open>sequential\<close> is the history in which no two handlers overlap.
\<close>

datatype event = Arrive jsstring | Complete jsstring

fun comments_channel ::
  "backend \<Rightarrow> event list \<Rightarrow> jsstring list \<times> comments_page \<Rightarrow> jsstring list \<times> comments_page" where
  "comments_channel be [] s = s"
| "comments_channel be (Arrive i # es) (inflight, st) =
     comments_channel be es (inflight @ [i], st)"
| "comments_channel be (Complete i # es) (inflight, st) =
     (if i \<in> set inflight
      then comments_channel be es (remove1 i inflight, fst (comments_INSERT be i st))
      else comments_channel be es (inflight, st))"

fun arrivals :: "event list \<Rightarrow> jsstring list" where
  "arrivals [] = []"
| "arrivals (Arrive i # es) = i # arrivals es"
| "arrivals (Complete i # es) = arrivals es"

fun completions :: "event list \<Rightarrow> jsstring list \<Rightarrow> jsstring list" where
  "completions [] inflight = []"
| "completions (Arrive i # es) inflight = completions es (inflight @ [i])"
| "completions (Complete i # es) inflight =
     (if i \<in> set inflight then i # completions es (remove1 i inflight)
      else completions es inflight)"

fun sequential :: "jsstring list \<Rightarrow> event list" where
  "sequential [] = []"
| "sequential (i # rest) = Arrive i # Complete i # sequential rest"

text \<open>What the handler for row \<open>i\<close> adds to the list: nothing if the re-fetch fails.\<close>

definition appended :: "backend \<Rightarrow> jsstring \<Rightarrow> comment list" where
  "appended be i =
     cp_comments (fst (comments_INSERT be i \<lparr> cp_tweet = None, cp_comments = [] \<rparr>))"

section \<open>TweetComposer: the dialog composer\<close>

text \<open>
  The dialog keeps the text \<open>content\<close> and the flag \<open>isSubmitting\<close>. \<open>handleSubmit\<close>
  returns at once when \<open>!content.trim() || !user || isSubmitting\<close>; otherwise it
  inserts the trimmed text. \<open>remainingChars\<close> and \<open>isOverLimit\<close> are computed at each
  render, and the submit button carries
  \<open>disabled={!content.trim() || isOverLimit || isSubmitting}\<close>.
\<close>

record composer =
  content :: jsstring
  isSubmitting :: bool

datatype composer_effect = Effect effect | OnOpenChange bool

definition handleSubmit ::
  "backend \<Rightarrow> jsstring option \<Rightarrow> composer \<Rightarrow> composer \<times> composer_effect list" where
  "handleSubmit be user st =
     (if trim (content st) = [] \<or> user = None \<or> isSubmitting st then (st, [])
      else case user of
        None \<Rightarrow> (st, [])
      | Some uid \<Rightarrow>
          (case error_of (tweets_insert be uid (trim (content st))) of
             Some e \<Rightarrow>
               (st\<lparr> isSubmitting := False \<rparr>,
                [Effect (Remote (TweetsInsert uid (trim (content st)))),
                 Effect (Toast ''Error'' ''Failed to post tweet'' True)])
           | None \<Rightarrow>
               (st\<lparr> content := [], isSubmitting := False \<rparr>,
                [Effect (Remote (TweetsInsert uid (trim (content st)))),
                 OnOpenChange False,
                 Effect (Toast ''Success'' ''Tweet posted successfully!'' False),
                 Effect (DispatchEvent ''tweetPosted'')])))"

definition remainingChars :: "composer \<Rightarrow> int" where
  "remainingChars st = 280 - int (length (content st))"

definition isOverLimit :: "composer \<Rightarrow> bool" where
  "isOverLimit st = (remainingChars st < 0)"

definition submit_disabled :: "composer \<Rightarrow> bool" where
  "submit_disabled st = (trim (content st) = [] \<or> isOverLimit st \<or> isSubmitting st)"

text \<open>
  The dialog's form is \<open><form onSubmit={handleSubmit}>\<close> with one textarea and one
  \<open><Button type="submit" disabled={...}>\<close>. A textarea does not submit its form, so
  the only way to submit is that button, and a disabled button submits nothing: a
  submission runs \<open>handleSubmit\<close> when the button of the current render is enabled,
  and does nothing otherwise.
\<close>

definition TweetComposer_submit ::
  "backend \<Rightarrow> jsstring option \<Rightarrow> composer \<Rightarrow> composer \<times> composer_effect list" where
  "TweetComposer_submit be user st =
     (if submit_disabled st then (st, []) else handleSubmit be user st)"

section \<open>AuthContext: signup\<close>

text \<open>
  \<open>signup\<close> first awaits the remote procedure \<open>is_email_allowed\<close>. It throws a new
  \<open>Error\<close> when that call failed, another when the answer is falsy, and only then
  awaits \<open>auth.signUp\<close>, re-throwing its error. A thrown value is \<open>Inl\<close>; \<open>Error\<close>
  is one made by \<open>new Error(message)\<close>, \<open>AuthError\<close> the one the client returned.
\<close>

datatype thrown = Error string | AuthError string

fun message :: "thrown \<Rightarrow> string" where
  "message (Error m) = m"
| "message (AuthError m) = m"

fun truthy :: "bool option \<Rightarrow> bool" where
  "truthy None = False"
| "truthy (Some b) = b"

definition signup ::
  "backend \<Rightarrow> jsstring \<Rightarrow> jsstring \<Rightarrow> jsstring \<Rightarrow> (thrown + unit) \<times> effect list" where
  "signup be email password name =
     (let resp = rpc_is_email_allowed be email;
          isAllowed = data_of resp;
          allowlistError = error_of resp
      in case allowlistError of
           Some e \<Rightarrow>
             (Inl (Error ''Unable to verify email authorization. Please try again.''),
              [Remote (RpcIsEmailAllowed email), ConsoleError ''Allowlist check error:''])
         | None \<Rightarrow>
             if truthy isAllowed then
               (case error_of (auth_signUp be email password name) of
                  Some e \<Rightarrow>
                    (Inl (AuthError e),
                     [Remote (RpcIsEmailAllowed email), Remote (AuthSignUp email password name)])
                | None \<Rightarrow>
                    (Inr (),
                     [Remote (RpcIsEmailAllowed email), Remote (AuthSignUp email password name)]))
             else
               (Inl (Error ''This email is not authorized for registration. Please contact an administrator.''),
                [Remote (RpcIsEmailAllowed email)]))"

section \<open>The password forms\<close>

text \<open>
  \<open>handleSignup\<close> of LoginPage.tsx: two checks on the form data, each showing a toast and
  returning, before \<open>setIsLoading(true)\<close> and the call of \<open>signup\<close>.
\<close>

record signup_form =
  f_email :: jsstring
  f_password :: jsstring
  f_name :: jsstring
  f_confirmPassword :: jsstring

record login_page =
  formData :: signup_form
  isLoading :: bool

definition handleSignup :: "backend \<Rightarrow> login_page \<Rightarrow> login_page \<times> effect list" where
  "handleSignup be st =
     (if f_password (formData st) \<noteq> f_confirmPassword (formData st) then
        (st, [Toast ''Passwords don't match'' ''Please make sure your passwords match.'' True])
      else if length (f_password (formData st)) < 6 then
        (st, [Toast ''Password too short'' ''Password must be at least 6 characters long.'' True])
      else
        (case signup be (f_email (formData st)) (f_password (formData st)) (f_name (formData st)) of
           (Inr u, effs) \<Rightarrow>
             (st\<lparr> formData := \<lparr> f_email = [], f_password = [], f_name = [],
                                 f_confirmPassword = [] \<rparr>,
                   isLoading := False \<rparr>,
              effs @ [Toast ''Account created successfully!''
                        ''Welcome to EI Found. You can now sign in.'' False])
         | (Inl err, effs) \<Rightarrow>
             (st\<lparr> isLoading := False \<rparr>,
              effs @ [ConsoleError ''Signup error:'',
                      Toast ''Signup failed'' (message err) True])))"

text \<open>\<open>handleChangePassword\<close> of ChangePasswordForm.tsx.\<close>

record change_form =
  currentPassword :: jsstring
  newPassword :: jsstring
  confirmPassword :: jsstring

record change_password_form =
  cf_formData :: change_form
  cf_isLoading :: bool

definition handleChangePassword ::
  "backend \<Rightarrow> change_password_form \<Rightarrow> change_password_form \<times> effect list" where
  "handleChangePassword be st =
     (if newPassword (cf_formData st) \<noteq> confirmPassword (cf_formData st) then
        (st, [Toast ''Passwords don't match'' ''Please make sure your new passwords match.'' True])
      else if length (newPassword (cf_formData st)) < 6 then
        (st, [Toast ''Password too short'' ''Password must be at least 6 characters long.'' True])
      else
        (case error_of (auth_updateUser be (newPassword (cf_formData st))) of
           None \<Rightarrow>
             (st\<lparr> cf_formData := \<lparr> currentPassword = [], newPassword = [],
                                    confirmPassword = [] \<rparr>,
                   cf_isLoading := False \<rparr>,
              [Remote (AuthUpdateUser (newPassword (cf_formData st))),
               Toast ''Password changed'' ''Your password has been successfully updated.'' False])
         | Some e \<Rightarrow>
             (st\<lparr> cf_isLoading := False \<rparr>,
              [Remote (AuthUpdateUser (newPassword (cf_formData st))),
               ConsoleError ''Password change error:'',
               Toast ''Change failed'' e True])))"

text \<open>\<open>handleResetPassword\<close> of the reset-password page.\<close>

record reset_form =
  rf_password :: jsstring
  rf_confirmPassword :: jsstring

record reset_password_page =
  rp_formData :: reset_form
  rp_isLoading :: bool

definition handleResetPassword ::
  "backend \<Rightarrow> reset_password_page \<Rightarrow> reset_password_page \<times> effect list" where
  "handleResetPassword be st =
     (if rf_password (rp_formData st) \<noteq> rf_confirmPassword (rp_formData st) then
        (st, [Toast ''Passwords don't match'' ''Please make sure your passwords match.'' True])
      else if length (rf_password (rp_formData st)) < 6 then
        (st, [Toast ''Password too short'' ''Password must be at least 6 characters long.'' True])
      else
        (case error_of (auth_updateUser be (rf_password (rp_formData st))) of
           None \<Rightarrow>
             (st\<lparr> rp_isLoading := False \<rparr>,
              [Remote (AuthUpdateUser (rf_password (rp_formData st))),
               Toast ''Password updated'' ''Your password has been successfully updated.'' False,
               Navigate ''/dashboard''])
         | Some e \<Rightarrow>
             (st\<lparr> rp_isLoading := False \<rparr>,
              [Remote (AuthUpdateUser (rf_password (rp_formData st))),
               ConsoleError ''Password update error:'',
               Toast ''Update failed'' e True])))"

section \<open>Sample data\<close>

text \<open>
  Concrete values on which the theorems below are instantiated: a backend that accepts
  every request (with the allowlist answering yes), one on which every request fails,
  one whose allowlist answers no, two posts with their rows, and a comments page
  that already holds one comment.
\<close>

definition accepting_backend :: backend where
  "accepting_backend =
     \<lparr> profiles_select_single =
         (\<lambda>uid. Success \<lparr> p_user_id = uid, p_display_name = Some [0x41], p_avatar_url = None \<rparr>),
       comments_select_single =
         (\<lambda>cid. Success \<lparr> cr_id = cid, cr_user_id = [0x75, 0x32], cr_content = [0x68, 0x69],
                           cr_created_at = [] \<rparr>),
       likes_insert = (\<lambda>t u. Success ()),
       likes_delete = (\<lambda>t u. Success ()),
       tweets_insert = (\<lambda>u c. Success ()),
       rpc_is_email_allowed = (\<lambda>e. Success True),
       auth_signUp = (\<lambda>e p n. Success ()),
       auth_updateUser = (\<lambda>p. Success ()) \<rparr>"

definition failing_backend :: backend where
  "failing_backend =
     \<lparr> profiles_select_single = (\<lambda>uid. Failure ''network''),
       comments_select_single = (\<lambda>cid. Failure ''network''),
       likes_insert = (\<lambda>t u. Failure ''network''),
       likes_delete = (\<lambda>t u. Failure ''network''),
       tweets_insert = (\<lambda>u c. Failure ''network''),
       rpc_is_email_allowed = (\<lambda>e. Failure ''network''),
       auth_signUp = (\<lambda>e p n. Failure ''network''),
       auth_updateUser = (\<lambda>p. Failure ''network'') \<rparr>"

definition refusing_backend :: backend where
  "refusing_backend = accepting_backend\<lparr> rpc_is_email_allowed := (\<lambda>e. Success False) \<rparr>"

definition post1 :: tweet where
  "post1 =
     \<lparr> t_id = [0x70, 0x31], t_user_id = [0x75, 0x31], t_content = [0x68, 0x69],
       likes_count = 5, comments_count = 2, t_created_at = [],
       t_profiles = None, user_liked = Some False \<rparr>"

definition post2 :: tweet where
  "post2 =
     \<lparr> t_id = [0x70, 0x32], t_user_id = [0x75, 0x32], t_content = [0x79, 0x6F],
       likes_count = 7, comments_count = 0, t_created_at = [],
       t_profiles = None, user_liked = Some True \<rparr>"

definition row1 :: tweet_row where
  "row1 =
     \<lparr> r_id = [0x70, 0x31], r_user_id = [0x75, 0x31], r_content = [0x68, 0x69],
       r_likes_count = 9, r_comments_count = 4, r_created_at = [] \<rparr>"

definition row2 :: tweet_row where
  "row2 =
     \<lparr> r_id = [0x70, 0x32], r_user_id = [0x75, 0x32], r_content = [0x79, 0x6F],
       r_likes_count = 0, r_comments_count = 0, r_created_at = [] \<rparr>"

definition comment0 :: comment where
  "comment0 =
     \<lparr> c_id = [0x63, 0x30], c_user_id = [0x75, 0x31], c_content = [0x6F, 0x6B],
       c_created_at = [], c_profiles = None \<rparr>"

definition page0 :: comments_page where
  "page0 = \<lparr> cp_tweet = Some post1, cp_comments = [comment0] \<rparr>"

section \<open>Realtime inserts into the feed\<close>

lemma tweets_changes_INSERT_state:
  "fst (tweets_changes_INSERT be new prev) =
     newTweetWithProfile new (data_of (profiles_select_single be (r_user_id new))) # prev"
  by (simp add: tweets_changes_INSERT_def Let_def)

lemma tweets_changes_INSERTs_eq:
  "tweets_changes_INSERTs be news prev =
     rev (map (\<lambda>new. newTweetWithProfile new
                 (data_of (profiles_select_single be (r_user_id new)))) news) @ prev"
  by (induction news arbitrary: prev) (simp_all add: tweets_changes_INSERT_state)

text \<open>
  C4. Each INSERT notification puts its post at the front of the list and leaves the
  entries already there as they were, in their order: the list after the handler is the
  new post followed by the list before. From the empty feed, an INSERT for P1 gives
  [P1] and a following INSERT for P2 gives [P2, P1]; a run of notifications, each
  handler finishing before the next one prepends, gives the new posts in reverse
  arrival order, followed by the old list.
\<close>

theorem C4_insert_prepends:
  "fst (tweets_changes_INSERT be new prev) =
     newTweetWithProfile new (data_of (profiles_select_single be (r_user_id new))) # prev \<and>
   t_id (newTweetWithProfile new profileData) = r_id new \<and>
   fst (tweets_changes_INSERT be p2 (fst (tweets_changes_INSERT be p1 []))) =
     [newTweetWithProfile p2 (data_of (profiles_select_single be (r_user_id p2))),
      newTweetWithProfile p1 (data_of (profiles_select_single be (r_user_id p1)))] \<and>
   tweets_changes_INSERTs be news prev =
     rev (map (\<lambda>new. newTweetWithProfile new
                 (data_of (profiles_select_single be (r_user_id new)))) news) @ prev"
  by (simp add: tweets_changes_INSERT_state tweets_changes_INSERTs_eq newTweetWithProfile_def)

theorem C4_insert_prepends_witness:
  "map t_id (fst (tweets_changes_INSERT accepting_backend row1 [])) = [r_id row1] \<and>
   map t_id (fst (tweets_changes_INSERT accepting_backend row2
                (fst (tweets_changes_INSERT accepting_backend row1 [])))) =
     [r_id row2, r_id row1]"
  using C4_insert_prepends [of accepting_backend row1 "[]" None row2 row1 "[]"]
  by (simp add: tweets_changes_INSERT_state newTweetWithProfile_def)

text \<open>
  C5. If the fetch of the author's profile fails, the INSERT handler still prepends the
  post, once, with a null profile: the list grows by exactly one entry, and the number
  of entries with the post's id grows by exactly one.
\<close>

theorem C5_insert_without_profile:
  assumes "profiles_select_single be (r_user_id new) = Failure e"
  shows "fst (tweets_changes_INSERT be new prev) = newTweetWithProfile new None # prev \<and>
         t_profiles (newTweetWithProfile new None) = None \<and>
         t_id (newTweetWithProfile new None) = r_id new \<and>
         length (fst (tweets_changes_INSERT be new prev)) = Suc (length prev) \<and>
         length (filter (\<lambda>t. t_id t = r_id new) (fst (tweets_changes_INSERT be new prev))) =
           Suc (length (filter (\<lambda>t. t_id t = r_id new) prev))"
  using assms by (simp add: tweets_changes_INSERT_state newTweetWithProfile_def)

theorem C5_insert_without_profile_witness:
  "profiles_select_single failing_backend (r_user_id row1) = Failure ''network'' \<and>
   fst (tweets_changes_INSERT failing_backend row1 [post2]) =
     [newTweetWithProfile row1 None, post2] \<and>
   t_profiles (newTweetWithProfile row1 None) = None \<and>
   length (filter (\<lambda>t. t_id t = r_id row1)
             (fst (tweets_changes_INSERT failing_backend row1 [post2]))) = 1"
proof -
  have h: "profiles_select_single failing_backend (r_user_id row1) = Failure ''network''"
    by (simp add: failing_backend_def)
  show ?thesis using h C5_insert_without_profile [OF h, of "[post2]"]
    by (simp add: post2_def row1_def)
qed

text \<open>
  C2. When an UPDATE notification for a post's id arrives, the merged post has the
  \<open>likes_count\<close> and \<open>comments_count\<close> of the notification, and its \<open>id\<close>,
  \<open>user_id\<close>, \<open>content\<close>, \<open>created_at\<close>, \<open>profiles\<close> and \<open>user_liked\<close> are
  unchanged; this holds for the feed of the dashboard and for the tweet held by the
  comments page.
\<close>

theorem C2_update_merge:
  "(i < length prev \<and> t_id (prev ! i) = r_id new \<and>
    merged = fst (tweets_changes_UPDATE new prev) ! i \<longrightarrow>
      likes_count merged = r_likes_count new \<and>
      comments_count merged = r_comments_count new \<and>
      t_id merged = t_id (prev ! i) \<and>
      t_user_id merged = t_user_id (prev ! i) \<and>
      t_content merged = t_content (prev ! i) \<and>
      t_created_at merged = t_created_at (prev ! i) \<and>
      t_profiles merged = t_profiles (prev ! i) \<and>
      user_liked merged = user_liked (prev ! i) \<and>
      merged = (prev ! i)\<lparr> likes_count := r_likes_count new,
                            comments_count := r_comments_count new \<rparr>) \<and>
   length (fst (tweets_changes_UPDATE new prev)) = length prev \<and>
   (cp_tweet st = Some held \<longrightarrow>
      cp_tweet (fst (tweets_UPDATE new st)) =
        Some (held\<lparr> likes_count := r_likes_count new,
                     comments_count := r_comments_count new \<rparr>) \<and>
      cp_comments (fst (tweets_UPDATE new st)) = cp_comments st)"
  by (simp add: tweets_changes_UPDATE_def tweets_UPDATE_def)

theorem C2_update_merge_witness:
  "(1::nat) < length [post2, post1] \<and> t_id ([post2, post1] ! 1) = r_id row1 \<and>
   fst (tweets_changes_UPDATE row1 [post2, post1]) ! 1 =
     post1\<lparr> likes_count := 9, comments_count := 4 \<rparr> \<and>
   user_liked (fst (tweets_changes_UPDATE row1 [post2, post1]) ! 1) = Some False \<and>
   cp_tweet (fst (tweets_UPDATE row1 \<lparr> cp_tweet = Some post1, cp_comments = [] \<rparr>)) =
     Some (post1\<lparr> likes_count := 9, comments_count := 4 \<rparr>)"
  using C2_update_merge [of 1 "[post2, post1]" row1
      "fst (tweets_changes_UPDATE row1 [post2, post1]) ! 1"
      "\<lparr> cp_tweet = Some post1, cp_comments = [] \<rparr>" post1]
  by (simp add: post1_def post2_def row1_def)

section \<open>The like toggle\<close>

lemma find_map_preserving:
  "(\<And>x. P (f x) = P x) \<Longrightarrow> find P (map f xs) = map_option f (find P xs)"
  by (induction xs) auto

lemma find_holds: "find P xs = Some x \<Longrightarrow> P x"
  by (auto simp: find_Some_iff)

lemma handleLike_failure_state:
  assumes "find (\<lambda>t. t_id t = tweetId) tweets = Some cur"
    and "error_of (if isLiked then likes_delete be tweetId uid
                   else likes_insert be tweetId uid) = Some e"
  shows "fst (handleLike be (Some uid) tweetId isLiked tweets) =
           map (\<lambda>tweet. if t_id tweet = tweetId
                  then tweet\<lparr> likes_count := likes_count cur, user_liked := Some isLiked \<rparr>
                  else tweet) tweets"
  using assms by (cases isLiked) (simp_all add: handleLike_def Let_def comp_def cong: if_cong)

lemma handleLike_success_state:
  assumes "find (\<lambda>t. t_id t = tweetId) tweets = Some cur"
    and "error_of (if isLiked then likes_delete be tweetId uid
                   else likes_insert be tweetId uid) = None"
  shows "fst (handleLike be (Some uid) tweetId isLiked tweets) =
           map (\<lambda>tweet. if t_id tweet = tweetId
                  then tweet\<lparr> likes_count := (if isLiked then likes_count cur - 1
                                                else likes_count cur + 1),
                              user_liked := Some (\<not> isLiked) \<rparr>
                  else tweet) tweets"
  using assms by (cases isLiked) (simp_all add: handleLike_def Let_def)

lemma find_patched:
  assumes "find (\<lambda>t. t_id t = tweetId) tweets = Some cur"
  shows "find (\<lambda>t. t_id t = tweetId)
           (map (\<lambda>tweet. if t_id tweet = tweetId
                   then tweet\<lparr> likes_count := n, user_liked := b \<rparr> else tweet) tweets) =
         Some (cur\<lparr> likes_count := n, user_liked := b \<rparr>)"
proof -
  have "t_id cur = tweetId" using assms by (rule find_holds)
  moreover have "find (\<lambda>t. t_id t = tweetId)
           (map (\<lambda>tweet. if t_id tweet = tweetId
                   then tweet\<lparr> likes_count := n, user_liked := b \<rparr> else tweet) tweets) =
         map_option (\<lambda>tweet. if t_id tweet = tweetId
                   then tweet\<lparr> likes_count := n, user_liked := b \<rparr> else tweet)
           (find (\<lambda>t. t_id t = tweetId) tweets)"
    by (rule find_map_preserving) simp
  ultimately show ?thesis using assms by simp
qed


text \<open>
  C1. A toggle is invoked with the post's current flag: a like (\<open>isLiked\<close> false) on a
  post not liked, an unlike (\<open>isLiked\<close> true) on a liked post. For every such toggle,
  on either page, if the remote write (the like insert or the like delete) fails, then
  after the rollback the post is exactly what it was before the toggle: its
  \<open>user_liked\<close> flag, its \<open>likes_count\<close> and every other field. On the dashboard the
  posts with another id are untouched as well.
\<close>

theorem C1_rollback_restores_snapshot:
  "(find (\<lambda>t. t_id t = tweetId) tweets = Some cur \<and>
    user_liked cur = Some isLiked \<and>
    error_of (if isLiked then likes_delete be tweetId uid
              else likes_insert be tweetId uid) = Some e \<longrightarrow>
      find (\<lambda>t. t_id t = tweetId) (fst (handleLike be (Some uid) tweetId isLiked tweets)) =
        Some cur \<and>
      length (fst (handleLike be (Some uid) tweetId isLiked tweets)) = length tweets \<and>
      (\<forall>i < length tweets. t_id (tweets ! i) \<noteq> tweetId \<longrightarrow>
         fst (handleLike be (Some uid) tweetId isLiked tweets) ! i = tweets ! i)) \<and>
   (cp_tweet st = Some held \<and>
    user_liked held = Some isLiked \<and>
    error_of (if isLiked then likes_delete be (t_id held) uid
              else likes_insert be (t_id held) uid) = Some e' \<longrightarrow>
      fst (handleLike_CommentsPage be (Some uid) isLiked st) = st)"
proof (intro conjI impI)
  assume a: "find (\<lambda>t. t_id t = tweetId) tweets = Some cur \<and>
    user_liked cur = Some isLiked \<and>
    error_of (if isLiked then likes_delete be tweetId uid
              else likes_insert be tweetId uid) = Some e"
  then have found: "find (\<lambda>t. t_id t = tweetId) tweets = Some cur" by simp
  from a have same: "cur\<lparr> user_liked := Some isLiked \<rparr> = cur" by simp
  from a have st: "fst (handleLike be (Some uid) tweetId isLiked tweets) =
           map (\<lambda>tweet. if t_id tweet = tweetId
                  then tweet\<lparr> likes_count := likes_count cur, user_liked := Some isLiked \<rparr>
                  else tweet) tweets"
    by (intro handleLike_failure_state) simp_all
  show "find (\<lambda>t. t_id t = tweetId) (fst (handleLike be (Some uid) tweetId isLiked tweets)) =
        Some cur"
    unfolding st using same by (simp add: find_patched [OF found])
  show "length (fst (handleLike be (Some uid) tweetId isLiked tweets)) = length tweets"
    unfolding st by simp
  show "\<forall>i < length tweets. t_id (tweets ! i) \<noteq> tweetId \<longrightarrow>
         fst (handleLike be (Some uid) tweetId isLiked tweets) ! i = tweets ! i"
    unfolding st by simp
next
  assume b: "cp_tweet st = Some held \<and>
    user_liked held = Some isLiked \<and>
    error_of (if isLiked then likes_delete be (t_id held) uid
              else likes_insert be (t_id held) uid) = Some e'"
  then have same: "held\<lparr> user_liked := Some isLiked \<rparr> = held" by simp
  from b have "fst (handleLike_CommentsPage be (Some uid) isLiked st) =
        st\<lparr> cp_tweet := Some (held\<lparr> user_liked := Some isLiked \<rparr>) \<rparr>"
    by (cases isLiked) (simp_all add: handleLike_CommentsPage_def Let_def)
  with same b show "fst (handleLike_CommentsPage be (Some uid) isLiked st) = st" by simp
qed

theorem C1_rollback_restores_snapshot_witness:
  "find (\<lambda>t. t_id t = [0x70, 0x31]) [post2, post1] = Some post1 \<and>
   user_liked post1 = Some False \<and>
   error_of (likes_insert failing_backend [0x70, 0x31] [0x75, 0x31]) = Some ''network'' \<and>
   find (\<lambda>t. t_id t = [0x70, 0x31])
     (fst (handleLike failing_backend (Some [0x75, 0x31]) [0x70, 0x31] False [post2, post1])) =
     Some post1 \<and>
   fst (handleLike failing_backend (Some [0x75, 0x31]) [0x70, 0x31] False [post2, post1]) ! 0 =
     post2 \<and>
   cp_tweet page0 = Some post1 \<and>
   fst (handleLike_CommentsPage failing_backend (Some [0x75, 0x31]) False page0) = page0 \<and>
   find (\<lambda>t. t_id t = [0x70, 0x32]) [post2, post1] = Some post2 \<and>
   user_liked post2 = Some True \<and>
   error_of (likes_delete failing_backend [0x70, 0x32] [0x75, 0x31]) = Some ''network'' \<and>
   find (\<lambda>t. t_id t = [0x70, 0x32])
     (fst (handleLike failing_backend (Some [0x75, 0x31]) [0x70, 0x32] True [post2, post1])) =
     Some post2"
  using C1_rollback_restores_snapshot [of "[0x70, 0x31]" "[post2, post1]" post1 False
      failing_backend "[0x75, 0x31]" "''network''" page0 post1 "''network''"]
    C1_rollback_restores_snapshot [of "[0x70, 0x32]" "[post2, post1]" post2 True
      failing_backend "[0x75, 0x31]" "''network''" page0 post1 "''network''"]
  by (simp add: post1_def post2_def page0_def failing_backend_def)

text \<open>
  C3 (as amended). With no failing write and nothing else touching the list, the
  sequence like, unlike, like on a post leaves its \<open>likes_count\<close> increased by exactly
  one and its \<open>user_liked\<close> flag true, every other field unchanged. The flag is thereby
  flipped when the post was not liked at the start; a post liked at the start keeps its
  flag.
\<close>

theorem C3_like_unlike_like:
  assumes "find (\<lambda>t. t_id t = tweetId) tweets = Some cur"
    and "likes_insert be tweetId uid = Success ()"
    and "likes_delete be tweetId uid = Success ()"
    and "s1 = fst (handleLike be (Some uid) tweetId False tweets)"
    and "s2 = fst (handleLike be (Some uid) tweetId True s1)"
    and "s3 = fst (handleLike be (Some uid) tweetId False s2)"
  shows "find (\<lambda>t. t_id t = tweetId) s3 =
           Some (cur\<lparr> likes_count := likes_count cur + 1, user_liked := Some True \<rparr>) \<and>
         (user_liked cur = Some False \<longrightarrow>
            (\<exists>final. find (\<lambda>t. t_id t = tweetId) s3 = Some final \<and>
               likes_count final = likes_count cur + 1 \<and>
               user_liked final = map_option Not (user_liked cur)))"
proof -
  have f1: "find (\<lambda>t. t_id t = tweetId) s1 =
              Some (cur\<lparr> likes_count := likes_count cur + 1, user_liked := Some True \<rparr>)"
    using assms(1,2,4) handleLike_success_state [of tweetId tweets cur False be uid]
    by (simp add: find_patched)
  have f2: "find (\<lambda>t. t_id t = tweetId) s2 =
              Some (cur\<lparr> likes_count := likes_count cur, user_liked := Some False \<rparr>)"
    using f1 assms(3,5) handleLike_success_state [OF f1, of True be uid]
    by (simp add: find_patched [OF f1])
  have f3: "find (\<lambda>t. t_id t = tweetId) s3 =
              Some (cur\<lparr> likes_count := likes_count cur + 1, user_liked := Some True \<rparr>)"
    using f2 assms(2,6) handleLike_success_state [OF f2, of False be uid]
    by (simp add: find_patched [OF f2])
  show ?thesis using f3 by simp
qed

theorem C3_like_unlike_like_witness:
  "find (\<lambda>t. t_id t = [0x70, 0x31]) [post2, post1] = Some post1 \<and>
   user_liked post1 = Some False \<and>
   find (\<lambda>t. t_id t = [0x70, 0x31])
     (fst (handleLike accepting_backend (Some [0x75, 0x31]) [0x70, 0x31] False
        (fst (handleLike accepting_backend (Some [0x75, 0x31]) [0x70, 0x31] True
           (fst (handleLike accepting_backend (Some [0x75, 0x31]) [0x70, 0x31] False
              [post2, post1])))))) =
     Some (post1\<lparr> likes_count := 6, user_liked := Some True \<rparr>)"
  using C3_like_unlike_like [of "[0x70, 0x31]" "[post2, post1]" post1 accepting_backend
      "[0x75, 0x31]", OF _ _ _ refl refl refl]
  by (simp add: post1_def post2_def accepting_backend_def)

theorem C3_counterexample:
  "user_liked post2 = Some True \<and>
   fst (handleLike accepting_backend (Some [0x75, 0x31]) (t_id post2) False
     (fst (handleLike accepting_backend (Some [0x75, 0x31]) (t_id post2) True
        (fst (handleLike accepting_backend (Some [0x75, 0x31]) (t_id post2) False
           [post2]))))) =
     [post2\<lparr> likes_count := 8, user_liked := Some True \<rparr>]"
  by (simp add: handleLike_def post2_def accepting_backend_def)

text \<open>
  C10. If the toggle is invoked with a tweet id that does not occur in the local tweets
  list, it returns the list as it was and issues no remote request, and no other effect.
\<close>

theorem C10_unknown_id_noop:
  "tweetId \<notin> t_id ` set tweets \<Longrightarrow> handleLike be user tweetId isLiked tweets = (tweets, [])"
proof -
  assume "tweetId \<notin> t_id ` set tweets"
  then have "find (\<lambda>t. t_id t = tweetId) tweets = None"
    by (auto simp: find_None_iff)
  then show ?thesis by (simp add: handleLike_def split: option.splits)
qed

theorem C10_unknown_id_noop_witness:
  "[0x70, 0x39] \<notin> t_id ` set [post1, post2] \<and>
   handleLike accepting_backend (Some [0x75, 0x31]) [0x70, 0x39] False [post1, post2] =
     ([post1, post2], [])"
proof -
  have h: "[0x70, 0x39] \<notin> t_id ` set [post1, post2]"
    by (simp add: post1_def post2_def)
  show ?thesis using h C10_unknown_id_noop [OF h] by simp
qed

section \<open>Realtime comments\<close>

lemma comments_INSERT_comments:
  "cp_comments (fst (comments_INSERT be i st)) = cp_comments st @ appended be i"
  by (simp add: comments_INSERT_def appended_def Let_def split: option.splits)

lemma comments_INSERT_tweet:
  "cp_tweet (fst (comments_INSERT be i st)) =
     map_option (\<lambda>t. t\<lparr> comments_count := comments_count t + int (length (appended be i)) \<rparr>)
       (cp_tweet st)"
  by (cases "cp_tweet st")
     (simp_all add: comments_INSERT_def appended_def Let_def split: option.splits)

lemma comments_channel_comments:
  "cp_comments (snd (comments_channel be es (inflight, st))) =
     cp_comments st @ concat (map (appended be) (completions es inflight))"
proof (induction es arbitrary: inflight st)
  case Nil
  show ?case by simp
next
  case (Cons e es)
  show ?case
  proof (cases e)
    case (Arrive i)
    then show ?thesis using Cons.IH by simp
  next
    case (Complete i)
    then show ?thesis using Cons.IH by (simp add: comments_INSERT_comments)
  qed
qed

lemma comments_channel_tweet:
  "cp_tweet (snd (comments_channel be es (inflight, st))) =
     map_option (\<lambda>t. t\<lparr> comments_count := comments_count t +
         int (length (concat (map (appended be) (completions es inflight)))) \<rparr>) (cp_tweet st)"
proof (induction es arbitrary: inflight st)
  case Nil
  show ?case by (cases "cp_tweet st") simp_all
next
  case (Cons e es)
  show ?case
  proof (cases e)
    case (Arrive i)
    then show ?thesis using Cons.IH by simp
  next
    case (Complete i)
    then show ?thesis using Cons.IH
      by (cases "cp_tweet st") (simp_all add: comments_INSERT_tweet algebra_simps)
  qed
qed

lemma completions_sequential:
  "completions (sequential ids @ es) [] = ids @ completions es []"
  by (induction ids) simp_all

lemma arrivals_sequential: "arrivals (sequential ids) = ids"
  by (induction ids) simp_all

text \<open>
  C9 (as amended). When the re-fetch of the comment row succeeds, the comments INSERT
  handler appends the comment at the end of the list as it is when the handler
  finishes, and adds exactly one to the \<open>comments_count\<close> of the tweet held by the
  page, computed from the local value alone: an UPDATE notification handled afterwards
  replaces the counter by the value it carries, and an INSERT handled after an UPDATE
  adds one on top of the value the UPDATE delivered. Over any history of the channel
  the list therefore grows by the fetched comments in the order in which their handlers
  complete, and the counter by their number; this is the arrival order when no two
  handlers overlap.
\<close>

theorem C9_comment_insert:
  "(comments_select_single be new_id = Success c \<longrightarrow>
      cp_comments (fst (comments_INSERT be new_id st)) =
        cp_comments st @
          [commentWithProfile c (data_of (profiles_select_single be (cr_user_id c)))] \<and>
      (cp_tweet st = Some t \<longrightarrow>
         cp_tweet (fst (comments_INSERT be new_id st)) =
           Some (t\<lparr> comments_count := comments_count t + 1 \<rparr>) \<and>
         cp_tweet (fst (tweets_UPDATE new (fst (comments_INSERT be new_id st)))) =
           Some (t\<lparr> likes_count := r_likes_count new,
                    comments_count := r_comments_count new \<rparr>) \<and>
         cp_tweet (fst (comments_INSERT be new_id (fst (tweets_UPDATE new st)))) =
           Some (t\<lparr> likes_count := r_likes_count new,
                    comments_count := r_comments_count new + 1 \<rparr>)) \<and>
      (cp_tweet st = None \<longrightarrow> cp_tweet (fst (comments_INSERT be new_id st)) = None)) \<and>
   cp_comments (snd (comments_channel be es ([], st))) =
     cp_comments st @ concat (map (appended be) (completions es [])) \<and>
   cp_tweet (snd (comments_channel be es ([], st))) =
     map_option (\<lambda>t. t\<lparr> comments_count := comments_count t +
         int (length (concat (map (appended be) (completions es [])))) \<rparr>) (cp_tweet st) \<and>
   completions (sequential ids) [] = ids \<and>
   arrivals (sequential ids) = ids \<and>
   cp_comments (snd (comments_channel be (sequential ids) ([], st))) =
     cp_comments st @ concat (map (appended be) ids)"
proof -
  have one: "comments_select_single be new_id = Success c \<longrightarrow>
      cp_comments (fst (comments_INSERT be new_id st)) =
        cp_comments st @
          [commentWithProfile c (data_of (profiles_select_single be (cr_user_id c)))] \<and>
      (cp_tweet st = Some t \<longrightarrow>
         cp_tweet (fst (comments_INSERT be new_id st)) =
           Some (t\<lparr> comments_count := comments_count t + 1 \<rparr>) \<and>
         cp_tweet (fst (tweets_UPDATE new (fst (comments_INSERT be new_id st)))) =
           Some (t\<lparr> likes_count := r_likes_count new,
                    comments_count := r_comments_count new \<rparr>) \<and>
         cp_tweet (fst (comments_INSERT be new_id (fst (tweets_UPDATE new st)))) =
           Some (t\<lparr> likes_count := r_likes_count new,
                    comments_count := r_comments_count new + 1 \<rparr>)) \<and>
      (cp_tweet st = None \<longrightarrow> cp_tweet (fst (comments_INSERT be new_id st)) = None)"
    by (simp add: comments_INSERT_def tweets_UPDATE_def Let_def)
  have seq: "completions (sequential ids) [] = ids"
    using completions_sequential [of ids "[]"] by simp
  have run: "cp_comments (snd (comments_channel be (sequential ids) ([], st))) =
               cp_comments st @ concat (map (appended be) ids)"
    using comments_channel_comments [of be "sequential ids" "[]" st] seq by simp
  show ?thesis
    by (rule conjI [OF one conjI [OF comments_channel_comments
          conjI [OF comments_channel_tweet conjI [OF seq conjI [OF arrivals_sequential run]]]]])
qed

theorem C9_comment_insert_witness:
  "comments_select_single accepting_backend [0x63, 0x31] =
     Success \<lparr> cr_id = [0x63, 0x31], cr_user_id = [0x75, 0x32], cr_content = [0x68, 0x69],
               cr_created_at = [] \<rparr> \<and>
   cp_tweet page0 = Some post1 \<and>
   map c_id (cp_comments page0) = [[0x63, 0x30]] \<and>
   map c_id (cp_comments (fst (comments_INSERT accepting_backend [0x63, 0x31] page0))) =
     [[0x63, 0x30], [0x63, 0x31]] \<and>
   cp_tweet (fst (comments_INSERT accepting_backend [0x63, 0x31] page0)) =
     Some (post1\<lparr> comments_count := 3 \<rparr>) \<and>
   map c_id (cp_comments (snd (comments_channel accepting_backend
       (sequential [[0x63, 0x31], [0x63, 0x32]]) ([], page0)))) =
     [[0x63, 0x30], [0x63, 0x31], [0x63, 0x32]]"
proof -
  have h: "comments_select_single accepting_backend [0x63, 0x31] =
     Success \<lparr> cr_id = [0x63, 0x31], cr_user_id = [0x75, 0x32], cr_content = [0x68, 0x69],
               cr_created_at = [] \<rparr>"
    by (simp add: accepting_backend_def)
  have p: "cp_tweet page0 = Some post1" by (simp add: page0_def)
  show ?thesis
    using h p C9_comment_insert [of accepting_backend "[0x63, 0x31]" _ page0 post1 row1 "[]" "[]"]
    by (simp add: post1_def page0_def comment0_def commentWithProfile_def comments_INSERT_def
                  accepting_backend_def)
qed

text \<open>
  Two handlers that overlap: the notification for row c1 arrives first, the handler for
  row c2 finishes first, and c2 stands before c1 in the list.
\<close>

theorem C9_counterexample:
  "arrivals [Arrive [0x63, 0x31], Arrive [0x63, 0x32], Complete [0x63, 0x32],
             Complete [0x63, 0x31]] = [[0x63, 0x31], [0x63, 0x32]] \<and>
   map c_id (cp_comments (snd (comments_channel accepting_backend
       [Arrive [0x63, 0x31], Arrive [0x63, 0x32], Complete [0x63, 0x32],
        Complete [0x63, 0x31]] ([], page0)))) =
     [[0x63, 0x30], [0x63, 0x32], [0x63, 0x31]]"
  by (simp add: comments_INSERT_def page0_def comment0_def commentWithProfile_def
                accepting_backend_def)

section \<open>The signup gate\<close>

text \<open>
  C6. Every run of \<open>signup\<close> issues the allowlist request first. If the predicate
  answers false, \<open>signup\<close> throws the error whose message says that the email is not
  authorized for registration, and no sign-up request is issued. A sign-up request
  occurs among the requests only when the predicate answered true, and then after the
  allowlist request.
\<close>

theorem C6_allowlist_gate:
  "(\<exists>rest. snd (signup be email password name) = Remote (RpcIsEmailAllowed email) # rest) \<and>
   (rpc_is_email_allowed be email = Success False \<longrightarrow>
      signup be email password name =
        (Inl (Error ''This email is not authorized for registration. Please contact an administrator.''),
         [Remote (RpcIsEmailAllowed email)])) \<and>
   (Remote (AuthSignUp e p n) \<in> set (snd (signup be email password name)) \<longrightarrow>
      rpc_is_email_allowed be email = Success True \<and> e = email \<and> p = password \<and> n = name \<and>
      snd (signup be email password name) =
        [Remote (RpcIsEmailAllowed email), Remote (AuthSignUp email password name)])"
proof (cases "rpc_is_email_allowed be email")
  case (Success b)
  then show ?thesis
    by (cases b; cases "auth_signUp be email password name")
       (simp_all add: signup_def Let_def)
next
  case (Failure x)
  then show ?thesis by (simp add: signup_def Let_def)
qed

theorem C6_allowlist_gate_witness:
  "rpc_is_email_allowed refusing_backend [0x78] = Success False \<and>
   signup refusing_backend [0x78] [0x70] [0x6E] =
     (Inl (Error ''This email is not authorized for registration. Please contact an administrator.''),
      [Remote (RpcIsEmailAllowed [0x78])]) \<and>
   Remote (AuthSignUp [0x78] [0x70] [0x6E]) \<in>
     set (snd (signup accepting_backend [0x78] [0x70] [0x6E])) \<and>
   rpc_is_email_allowed accepting_backend [0x78] = Success True"
proof -
  have h1: "rpc_is_email_allowed refusing_backend [0x78] = Success False"
    by (simp add: refusing_backend_def accepting_backend_def)
  have h2: "Remote (AuthSignUp [0x78] [0x70] [0x6E]) \<in>
              set (snd (signup accepting_backend [0x78] [0x70] [0x6E]))"
    by (simp add: signup_def accepting_backend_def)
  have a: "signup refusing_backend [0x78] [0x70] [0x6E] =
     (Inl (Error ''This email is not authorized for registration. Please contact an administrator.''),
      [Remote (RpcIsEmailAllowed [0x78])])"
    using C6_allowlist_gate [of refusing_backend "[0x78]" "[0x70]" "[0x6E]"] h1 by blast
  have b: "rpc_is_email_allowed accepting_backend [0x78] = Success True"
    using C6_allowlist_gate [of accepting_backend "[0x78]" "[0x70]" "[0x6E]" "[0x78]" "[0x70]" "[0x6E]"] h2
    by blast
  show ?thesis using h1 h2 a b by (intro conjI)
qed

section \<open>Form validation\<close>

text \<open>
  C7. In the signup form, the change-password form and the reset-password form: if the
  two passwords differ, or the password has fewer than 6 code units, the handler leaves
  the component state as it was, shows one destructive toast and issues no remote
  request.
\<close>

theorem C7_validation_before_network:
  "(f_password (formData s) \<noteq> f_confirmPassword (formData s) \<or>
    length (f_password (formData s)) < 6 \<longrightarrow>
      fst (handleSignup be s) = s \<and>
      (\<exists>title description. snd (handleSignup be s) = [Toast title description True]) \<and>
      (\<forall>x \<in> set (snd (handleSignup be s)). \<not> is_remote x)) \<and>
   (newPassword (cf_formData c) \<noteq> confirmPassword (cf_formData c) \<or>
    length (newPassword (cf_formData c)) < 6 \<longrightarrow>
      fst (handleChangePassword be c) = c \<and>
      (\<exists>title description. snd (handleChangePassword be c) = [Toast title description True]) \<and>
      (\<forall>x \<in> set (snd (handleChangePassword be c)). \<not> is_remote x)) \<and>
   (rf_password (rp_formData r) \<noteq> rf_confirmPassword (rp_formData r) \<or>
    length (rf_password (rp_formData r)) < 6 \<longrightarrow>
      fst (handleResetPassword be r) = r \<and>
      (\<exists>title description. snd (handleResetPassword be r) = [Toast title description True]) \<and>
      (\<forall>x \<in> set (snd (handleResetPassword be r)). \<not> is_remote x))"
  by (simp add: handleSignup_def handleChangePassword_def handleResetPassword_def)

theorem C7_validation_before_network_witness:
  "handleSignup accepting_backend
     \<lparr> formData = \<lparr> f_email = [0x78], f_password = [0x61, 0x62, 0x63], f_name = [0x6E],
                    f_confirmPassword = [0x61, 0x62, 0x63] \<rparr>, isLoading = False \<rparr> =
     (\<lparr> formData = \<lparr> f_email = [0x78], f_password = [0x61, 0x62, 0x63], f_name = [0x6E],
                     f_confirmPassword = [0x61, 0x62, 0x63] \<rparr>, isLoading = False \<rparr>,
      [Toast ''Password too short'' ''Password must be at least 6 characters long.'' True]) \<and>
   fst (handleChangePassword accepting_backend
     \<lparr> cf_formData = \<lparr> currentPassword = [], newPassword = [0x61, 0x62, 0x63, 0x64, 0x65, 0x66],
                       confirmPassword = [0x61] \<rparr>, cf_isLoading = False \<rparr>) =
     \<lparr> cf_formData = \<lparr> currentPassword = [], newPassword = [0x61, 0x62, 0x63, 0x64, 0x65, 0x66],
                       confirmPassword = [0x61] \<rparr>, cf_isLoading = False \<rparr> \<and>
   fst (handleResetPassword accepting_backend
     \<lparr> rp_formData = \<lparr> rf_password = [0x61], rf_confirmPassword = [0x61] \<rparr>,
       rp_isLoading = False \<rparr>) =
     \<lparr> rp_formData = \<lparr> rf_password = [0x61], rf_confirmPassword = [0x61] \<rparr>,
       rp_isLoading = False \<rparr>"
  using C7_validation_before_network
    [of "\<lparr> formData = \<lparr> f_email = [0x78], f_password = [0x61, 0x62, 0x63], f_name = [0x6E],
                    f_confirmPassword = [0x61, 0x62, 0x63] \<rparr>, isLoading = False \<rparr>"
        accepting_backend
        "\<lparr> cf_formData = \<lparr> currentPassword = [], newPassword = [0x61, 0x62, 0x63, 0x64, 0x65, 0x66],
                       confirmPassword = [0x61] \<rparr>, cf_isLoading = False \<rparr>"
        "\<lparr> rp_formData = \<lparr> rf_password = [0x61], rf_confirmPassword = [0x61] \<rparr>,
       rp_isLoading = False \<rparr>"]
  by (simp add: handleSignup_def)

section \<open>Composing a post\<close>

lemma length_trim_le: "length (trim s) \<le> length s"
proof -
  have "length (trim s) \<le> length (dropWhile is_white_space s)"
    unfolding trim_def using length_dropWhile_le [of is_white_space "rev (dropWhile is_white_space s)"]
    by simp
  also have "\<dots> \<le> length s" by (rule length_dropWhile_le)
  finally show ?thesis .
qed

lemma handleSendTweet_rejects:
  "trim newTweet = [] \<or> 280 < length newTweet \<Longrightarrow>
     handleSendTweet be user newTweet = (newTweet, [])"
  by (auto simp: handleSendTweet_def)

lemma handleSendTweet_insert_only_valid:
  assumes "Remote (TweetsInsert u c) \<in> set (snd (handleSendTweet be user newTweet))"
  shows "c = trim newTweet \<and> c \<noteq> [] \<and> length c \<le> 280 \<and> length newTweet \<le> 280"
proof -
  have "trim newTweet \<noteq> [] \<and> length newTweet \<le> 280 \<and> c = trim newTweet"
    using assms by (auto simp: handleSendTweet_def split: if_splits option.splits)
  moreover have "length (trim newTweet) \<le> length newTweet" by (rule length_trim_le)
  ultimately show ?thesis by simp
qed

lemma handleSubmit_rejects_empty:
  "trim (content st) = [] \<Longrightarrow> handleSubmit be user st = (st, [])"
  by (simp add: handleSubmit_def)

lemma handleSubmit_insert_when_enabled:
  assumes "Effect (Remote (TweetsInsert u c)) \<in> set (snd (handleSubmit be user st))"
    and "\<not> submit_disabled st"
  shows "c = trim (content st) \<and> c \<noteq> [] \<and> length (content st) \<le> 280"
  using assms
  by (auto simp: handleSubmit_def submit_disabled_def isOverLimit_def remainingChars_def
           split: if_splits option.splits)

lemma trim_replicate_a: "trim (replicate n 0x61) = replicate n 0x61"
  by (simp add: trim_def is_white_space_def)

text \<open>
  \<open>handleSubmit\<close> itself does not look at the length of the content; in the dialog
  the limit rests on the submit button.
\<close>

lemma handleSubmit_without_length_check:
  "length (content \<lparr> content = replicate 281 0x61, isSubmitting = False \<rparr>) = 281 \<and>
   handleSubmit accepting_backend (Some [0x75, 0x31])
       \<lparr> content = replicate 281 0x61, isSubmitting = False \<rparr> =
     (\<lparr> content = [], isSubmitting = False \<rparr>,
      [Effect (Remote (TweetsInsert [0x75, 0x31] (replicate 281 0x61))),
       OnOpenChange False,
       Effect (Toast ''Success'' ''Tweet posted successfully!'' False),
       Effect (DispatchEvent ''tweetPosted'')])"
  by (simp add: handleSubmit_def trim_replicate_a accepting_backend_def)

lemma TweetComposer_submit_rejects:
  "trim (content st) = [] \<or> 280 < length (content st) \<Longrightarrow>
     TweetComposer_submit be user st = (st, [])"
  by (auto simp: TweetComposer_submit_def submit_disabled_def isOverLimit_def
                 remainingChars_def)

lemma TweetComposer_submit_insert_only_valid:
  assumes "Effect (Remote (TweetsInsert u c)) \<in> set (snd (TweetComposer_submit be user st))"
  shows "c = trim (content st) \<and> c \<noteq> [] \<and> length c \<le> 280 \<and> length (content st) \<le> 280"
proof -
  have en: "\<not> submit_disabled st"
    using assms by (auto simp: TweetComposer_submit_def split: if_splits)
  then have "Effect (Remote (TweetsInsert u c)) \<in> set (snd (handleSubmit be user st))"
    using assms by (simp add: TweetComposer_submit_def)
  then have "c = trim (content st) \<and> c \<noteq> [] \<and> length (content st) \<le> 280"
    using en by (rule handleSubmit_insert_when_enabled)
  moreover have "length (trim (content st)) \<le> length (content st)" by (rule length_trim_le)
  ultimately show ?thesis by auto
qed

text \<open>
  C8. For every submission of a new post from either composer, if the content is empty
  after trimming or longer than 280 code units, nothing happens: no insert is issued
  and the state stays as it was. An insert that is issued carries the trimmed content,
  which is non-empty and at most 280 code units long. The inline composer has the
  check in \<open>handleSendTweet\<close>; in the dialog composer \<open>handleSubmit\<close> checks emptiness
  and the disabled submit button keeps a content over 280 from being submitted.
\<close>

theorem C8_composers_guard:
  "(trim newTweet = [] \<or> 280 < length newTweet \<longrightarrow>
      handleSendTweet be user newTweet = (newTweet, [])) \<and>
   (Remote (TweetsInsert u c) \<in> set (snd (handleSendTweet be user newTweet)) \<longrightarrow>
      c = trim newTweet \<and> c \<noteq> [] \<and> length c \<le> 280 \<and> length newTweet \<le> 280) \<and>
   (trim (content st) = [] \<or> 280 < length (content st) \<longrightarrow>
      TweetComposer_submit be user st = (st, [])) \<and>
   (Effect (Remote (TweetsInsert u' c')) \<in> set (snd (TweetComposer_submit be user st)) \<longrightarrow>
      c' = trim (content st) \<and> c' \<noteq> [] \<and> length c' \<le> 280 \<and> length (content st) \<le> 280)"
proof -
  have inline_rejects:
    "trim newTweet = [] \<or> 280 < length newTweet \<longrightarrow>
       handleSendTweet be user newTweet = (newTweet, [])"
    by (rule impI) (rule handleSendTweet_rejects)
  have inline_valid:
    "Remote (TweetsInsert u c) \<in> set (snd (handleSendTweet be user newTweet)) \<longrightarrow>
       c = trim newTweet \<and> c \<noteq> [] \<and> length c \<le> 280 \<and> length newTweet \<le> 280"
    by (rule impI) (rule handleSendTweet_insert_only_valid)
  have dialog_rejects:
    "trim (content st) = [] \<or> 280 < length (content st) \<longrightarrow>
       TweetComposer_submit be user st = (st, [])"
    by (rule impI) (rule TweetComposer_submit_rejects)
  have dialog_valid:
    "Effect (Remote (TweetsInsert u' c')) \<in> set (snd (TweetComposer_submit be user st)) \<longrightarrow>
       c' = trim (content st) \<and> c' \<noteq> [] \<and> length c' \<le> 280 \<and>
       length (content st) \<le> 280"
    by (rule impI) (rule TweetComposer_submit_insert_only_valid)
  show ?thesis
    by (rule conjI [OF inline_rejects conjI [OF inline_valid conjI [OF dialog_rejects dialog_valid]]])
qed

theorem C8_composers_guard_witness:
  "280 < length (replicate 281 (0x61 :: 16 word)) \<and>
   handleSendTweet accepting_backend (Some [0x75, 0x31]) (replicate 281 0x61) =
     (replicate 281 0x61, []) \<and>
   TweetComposer_submit accepting_backend (Some [0x75, 0x31])
       \<lparr> content = replicate 281 0x61, isSubmitting = False \<rparr> =
     (\<lparr> content = replicate 281 0x61, isSubmitting = False \<rparr>, []) \<and>
   trim [0x20, 0x0A] = [] \<and>
   handleSendTweet accepting_backend (Some [0x75, 0x31]) [0x20, 0x0A] = ([0x20, 0x0A], []) \<and>
   TweetComposer_submit accepting_backend (Some [0x75, 0x31])
       \<lparr> content = [0x20, 0x0A], isSubmitting = False \<rparr> =
     (\<lparr> content = [0x20, 0x0A], isSubmitting = False \<rparr>, []) \<and>
   Remote (TweetsInsert [0x75, 0x31] [0x68, 0x69]) \<in>
     set (snd (handleSendTweet accepting_backend (Some [0x75, 0x31]) [0x20, 0x68, 0x69, 0x20])) \<and>
   Effect (Remote (TweetsInsert [0x75, 0x31] [0x68, 0x69])) \<in>
     set (snd (TweetComposer_submit accepting_backend (Some [0x75, 0x31])
                 \<lparr> content = [0x20, 0x68, 0x69, 0x20], isSubmitting = False \<rparr>)) \<and>
   trim [0x20, 0x68, 0x69, 0x20] = [0x68, 0x69]"
proof -
  have long: "280 < length (replicate 281 (0x61 :: 16 word))" by simp
  have blank: "trim [0x20, 0x0A] = []" by (simp add: trim_def is_white_space_def)
  have tr: "trim [0x20, 0x68, 0x69, 0x20] = [0x68, 0x69]"
    by (simp add: trim_def is_white_space_def)
  have i1: "Remote (TweetsInsert [0x75, 0x31] [0x68, 0x69]) \<in>
     set (snd (handleSendTweet accepting_backend (Some [0x75, 0x31]) [0x20, 0x68, 0x69, 0x20]))"
    by (simp add: handleSendTweet_def tr accepting_backend_def)
  have i2: "Effect (Remote (TweetsInsert [0x75, 0x31] [0x68, 0x69])) \<in>
     set (snd (TweetComposer_submit accepting_backend (Some [0x75, 0x31])
                 \<lparr> content = [0x20, 0x68, 0x69, 0x20], isSubmitting = False \<rparr>))"
    by (simp add: TweetComposer_submit_def submit_disabled_def isOverLimit_def
                  remainingChars_def handleSubmit_def tr accepting_backend_def)
  have a: "handleSendTweet accepting_backend (Some [0x75, 0x31]) (replicate 281 0x61) =
             (replicate 281 0x61, [])"
    using long C8_composers_guard [of "replicate 281 0x61" accepting_backend "Some [0x75, 0x31]"]
    by blast
  have b: "TweetComposer_submit accepting_backend (Some [0x75, 0x31])
       \<lparr> content = replicate 281 0x61, isSubmitting = False \<rparr> =
     (\<lparr> content = replicate 281 0x61, isSubmitting = False \<rparr>, [])"
    using long C8_composers_guard [of "[]" accepting_backend "Some [0x75, 0x31]" "[]" "[]"
        "\<lparr> content = replicate 281 0x61, isSubmitting = False \<rparr>" "[]" "[]"]
    by simp
  have c: "handleSendTweet accepting_backend (Some [0x75, 0x31]) [0x20, 0x0A] = ([0x20, 0x0A], [])"
    using blank C8_composers_guard [of "[0x20, 0x0A]" accepting_backend "Some [0x75, 0x31]"]
    by blast
  have d: "TweetComposer_submit accepting_backend (Some [0x75, 0x31])
       \<lparr> content = [0x20, 0x0A], isSubmitting = False \<rparr> =
     (\<lparr> content = [0x20, 0x0A], isSubmitting = False \<rparr>, [])"
    using blank C8_composers_guard [of "[]" accepting_backend "Some [0x75, 0x31]" "[]" "[]"
        "\<lparr> content = [0x20, 0x0A], isSubmitting = False \<rparr>" "[]" "[]"]
    by simp
  show ?thesis
    by (intro conjI) (rule long a b blank c d i1 i2 tr)+
qed

end
